theory Spec2Isabelle
  imports Main
begin

section \<open>Values of the JavaScript runtime\<close>

text \<open>
  The request body is whatever the platform parsed from the HTTP request. A number is
  carried as its decimal rendering, which is all the handler ever uses of it (inside a
  template string). \<open>JUndefined\<close> is the value of a missing property.
\<close>

datatype json =
    JUndefined
  | JNull
  | JBool bool
  | JNum string
  | JStr string
  | JArr "json list"
  | JObj "(string \<times> json) list"

text \<open>
  An \<open>Error\<close> object, with the three properties the module reads: \<open>message\<close>,
  \<open>statusCode\<close> and \<open>errors[i].reason\<close>. \<open>None\<close> is an absent property.
\<close>

record error_item =
  reason :: "string option"

record js_error =
  message :: string
  statusCode :: "nat option"
  errors :: "error_item list option"

definition Error :: "string \<Rightarrow> js_error" where
  "Error msg = \<lparr>message = msg, statusCode = None, errors = None\<rparr>"

definition TypeError :: "string \<Rightarrow> js_error" where
  "TypeError msg = \<lparr>message = msg, statusCode = None, errors = None\<rparr>"

text \<open>
  Property access \<open>v.k\<close>, for the keys the handler reads (\<open>repository\<close>, \<open>owner\<close>,
  \<open>name\<close>): on \<open>undefined\<close> and \<open>null\<close> it throws a TypeError, on an object it
  returns the property or \<open>undefined\<close>, on any other value it returns \<open>undefined\<close>
  (no string, number, boolean or array has one of these three properties).
\<close>

definition quoted :: "string \<Rightarrow> string" where
  "quoted k = [CHR 0x27] @ k @ [CHR 0x27]"

definition member :: "json \<Rightarrow> string \<Rightarrow> js_error + json" where
  "member v k =
     (case v of
        JUndefined \<Rightarrow>
          Inl (TypeError (''Cannot read property '' @ quoted k @ '' of undefined''))
      | JNull \<Rightarrow> Inl (TypeError (''Cannot read property '' @ quoted k @ '' of null''))
      | JObj kvs \<Rightarrow> Inr (case map_of kvs k of Some x \<Rightarrow> x | None \<Rightarrow> JUndefined)
      | _ \<Rightarrow> Inr JUndefined)"

fun join_comma :: "string list \<Rightarrow> string" where
  "join_comma [] = []"
| "join_comma [s] = s"
| "join_comma (s # t # ss) = s @ '','' @ join_comma (t # ss)"

text \<open>
  The string a value contributes to a template literal \<open>`${v}`\<close>, or the TypeError the
  conversion throws. An object is converted by the \<open>toString\<close> it inherits, unless it has
  a member \<open>toString\<close> of its own: a parsed value is never a function, the inherited
  \<open>valueOf\<close> returns the object itself, and the conversion throws. An array joins the
  strings of its elements with commas, \<open>undefined\<close> and \<open>null\<close> counting as empty.
\<close>

fun to_str :: "json \<Rightarrow> js_error + string"
  and to_strs :: "json list \<Rightarrow> js_error + string list" where
  "to_str JUndefined = Inr ''undefined''"
| "to_str JNull = Inr ''null''"
| "to_str (JBool b) = Inr (if b then ''true'' else ''false'')"
| "to_str (JNum s) = Inr s"
| "to_str (JStr s) = Inr s"
| "to_str (JArr xs) = (case to_strs xs of Inl e \<Rightarrow> Inl e | Inr ss \<Rightarrow> Inr (join_comma ss))"
| "to_str (JObj kvs) =
     (case map_of kvs ''toString'' of
        Some _ \<Rightarrow> Inl (TypeError ''Cannot convert object to primitive value'')
      | None \<Rightarrow> Inr ''[object Object]'')"
| "to_strs [] = Inr []"
| "to_strs (x # xs) =
     (case (if x = JUndefined \<or> x = JNull then Inr [] else to_str x) of
        Inl e \<Rightarrow> Inl e
      | Inr s \<Rightarrow> (case to_strs xs of Inl e \<Rightarrow> Inl e | Inr ss \<Rightarrow> Inr (s # ss)))"

text \<open>A template literal over a value that may be \<open>undefined\<close> (an unset environment variable).\<close>

definition tpl :: "string option \<Rightarrow> string" where
  "tpl v = (case v of None \<Rightarrow> ''undefined'' | Some s \<Rightarrow> s)"

text \<open>
  \<open>path.parse(p).base\<close> of Node's POSIX path module: trailing slashes are dropped, and the
  base is what follows the last remaining slash.
\<close>

definition path_base :: "string \<Rightarrow> string" where
  "path_base p =
     rev (takeWhile (\<lambda>c. c \<noteq> CHR ''/'') (dropWhile (\<lambda>c. c = CHR ''/'') (rev p)))"

section \<open>Configuration, requests and the remote API's data\<close>

record deployment =
  repository :: string
  path :: string
  functionName :: string

record config =
  secretToken :: string
  stageBucket :: string
  location :: string
  deployments :: "deployment list"

record request =
  body :: json
  headers :: "(string \<times> string) list"

record auth_client =
  credential :: string
  createScopedRequired :: "bool option"
  scopes :: "string list"

text \<open>
  The handle returned by \<open>google.cloudfunctions({version, auth})\<close>. Every call builds a
  new object; \<open>oid\<close> is the object's identity.
\<close>

record gcf_client =
  oid :: nat
  version :: string
  auth :: auth_client

record resource =
  sourceArchiveUrl :: string
  name :: string
  httpsTrigger :: "(string \<times> json) list"

text \<open>The deployed function's descriptor, the \<open>response\<close> of a finished operation.\<close>

record cloud_function =
  fn_name :: string
  fn_sourceArchiveUrl :: string

record operation =
  op_name :: string
  op_done :: bool
  op_error :: "js_error option"
  response :: "cloud_function option"

section \<open>Promises, the process state and the collaborators\<close>

text \<open>
  The state a promise ends in: resolved, rejected, never settled because the callback that
  should settle it threw (\<open>Uncaught\<close>), or not settled within the polls observed
  (\<open>Pending\<close>).
\<close>

datatype 'a promise = Resolved 'a | Rejected js_error | Uncaught js_error | Pending

text \<open>Calls to the collaborators, as they are issued.\<close>

datatype call =
    CreateHmac string
  | DownloadGitRepo string string
  | Generate nat
  | ZipFolder string string
  | BucketUpload string
  | UnlinkSync "string option"
  | GetApplicationDefault
  | FunctionsCreate gcf_client resource string
  | FunctionsUpdate gcf_client resource string
  | OperationsGet gcf_client string

datatype payload = Text string | Results "(cloud_function \<times> deployment option) list"

text \<open>
  The mutable state: the module-level \<open>client\<close>, \<open>config.currentDeployments\<close>, the
  files of the scratch directory, the collaborator calls made so far, the number of client
  objects built so far, and what was sent on \<open>res\<close>.
\<close>

record world =
  client :: "gcf_client option"
  currentDeployments :: "deployment list"
  files :: "string set"
  trace :: "call list"
  allocated :: nat
  sent :: "(nat \<times> payload) list"

definition tick :: "world \<Rightarrow> nat" where
  "tick w = length (trace w)"

definition invoke :: "call \<Rightarrow> world \<Rightarrow> world" where
  "invoke c w = w\<lparr>trace := trace w @ [c]\<rparr>"

text \<open>
  What the module closes over and never changes: the configuration file, the project id
  of the process environment, and the libraries and services it calls. The answer of a
  service is a function of the arguments and of the number of calls made before it, so
  that any sequence of answers can be described. \<open>race\<close> says which of the rejected
  members of a \<open>Promise.all\<close> rejected first.
\<close>

record env =
  config :: config
  PROJECT_ID :: "string option"
  hmac_sha1_hex :: "string \<Rightarrow> string \<Rightarrow> string"
  JSON_stringify :: "json \<Rightarrow> string"
  path_join :: "string \<Rightarrow> string \<Rightarrow> string"
  randomstring_generate :: "nat \<Rightarrow> nat \<Rightarrow> string"
  downloadGitRepo :: "string \<Rightarrow> string \<Rightarrow> nat \<Rightarrow> js_error option"
  zipFolder :: "string \<Rightarrow> string \<Rightarrow> nat \<Rightarrow> js_error option"
  bucket_upload :: "string \<Rightarrow> nat \<Rightarrow> js_error option"
  getApplicationDefault :: "nat \<Rightarrow> js_error + auth_client"
  functions_create :: "gcf_client \<Rightarrow> resource \<Rightarrow> string \<Rightarrow> nat \<Rightarrow> js_error + operation"
  functions_update :: "gcf_client \<Rightarrow> resource \<Rightarrow> string \<Rightarrow> nat \<Rightarrow> js_error + operation"
  operations_get :: "gcf_client \<Rightarrow> string \<Rightarrow> nat \<Rightarrow> js_error + operation"
  race :: "nat \<Rightarrow> nat \<Rightarrow> nat"

text \<open>\<open>p.then(f)\<close>: \<open>f\<close> runs on the value of a resolved promise, anything else passes through.\<close>

definition then_p ::
  "'a promise \<times> world \<Rightarrow> ('a \<Rightarrow> world \<Rightarrow> 'b promise \<times> world) \<Rightarrow> 'b promise \<times> world" where
  "then_p pw f =
     (case fst pw of
        Resolved v \<Rightarrow> f v (snd pw)
      | Rejected e \<Rightarrow> (Rejected e, snd pw)
      | Uncaught e \<Rightarrow> (Uncaught e, snd pw)
      | Pending \<Rightarrow> (Pending, snd pw))"

fun rejections :: "'a promise list \<Rightarrow> js_error list" where
  "rejections [] = []"
| "rejections (Rejected e # ps) = e # rejections ps"
| "rejections (_ # ps) = rejections ps"

fun resolutions :: "'a promise list \<Rightarrow> 'a list option" where
  "resolutions [] = Some []"
| "resolutions (Resolved v # ps) = (case resolutions ps of Some vs \<Rightarrow> Some (v # vs) | None \<Rightarrow> None)"
| "resolutions (_ # ps) = None"

text \<open>
  \<open>Promise.all\<close>: rejected with the error of the member that rejected first, resolved with
  all the values when every member resolved, otherwise never settled.
\<close>

definition promise_all :: "(nat \<Rightarrow> nat) \<Rightarrow> 'a promise list \<Rightarrow> 'a list promise" where
  "promise_all first ps =
     (let errs = rejections ps in
      if errs \<noteq> [] then Rejected (errs ! (first (length errs) mod length errs))
      else (case resolutions ps of Some vs \<Rightarrow> Resolved vs | None \<Rightarrow> Pending))"

text \<open>\<open>xs.map(f)\<close> where \<open>f\<close> acts on the state: the calls run in list order.\<close>

fun map_world :: "('a \<Rightarrow> world \<Rightarrow> 'b \<times> world) \<Rightarrow> 'a list \<Rightarrow> world \<Rightarrow> 'b list \<times> world" where
  "map_world f [] w = ([], w)"
| "map_world f (x # xs) w =
     (let (y, w1) = f x w; (ys, w2) = map_world f xs w1 in (y # ys, w2))"

section \<open>The module's functions\<close>

subsection \<open>downloadRepo\<close>

definition downloadRepo :: "env \<Rightarrow> string \<Rightarrow> string \<Rightarrow> world \<Rightarrow> string promise \<times> world" where
  "downloadRepo env repository' destination w =
     (let w1 = invoke (DownloadGitRepo repository' destination) w in
      case downloadGitRepo env repository' destination (tick w) of
        Some err \<Rightarrow> (Rejected err, w1)
      | None \<Rightarrow> (Resolved destination, w1))"

subsection \<open>zipDir\<close>

text \<open>
  The executor of the promise runs at once: it draws the token and calls \<open>zipFolder\<close>. The
  callback runs later; a successful \<open>zipFolder\<close> has written the archive.
\<close>

definition zipDir_start :: "env \<Rightarrow> string \<Rightarrow> world \<Rightarrow> (string \<times> js_error option) \<times> world" where
  "zipDir_start env directory w =
     (let archive = ''/tmp/'' @ randomstring_generate env 13 (tick w) @ ''.zip'';
          w1 = invoke (Generate 13) w;
          w2 = invoke (ZipFolder directory archive) w1
      in ((archive, zipFolder env directory archive (tick w1)), w2))"

definition zipDir_settle :: "string \<times> js_error option \<Rightarrow> world \<Rightarrow> string promise \<times> world" where
  "zipDir_settle started w =
     (case snd started of
        Some err \<Rightarrow> (Rejected err, w)
      | None \<Rightarrow> (Resolved (fst started), w\<lparr>files := insert (fst started) (files w)\<rparr>))"

definition zipDir :: "env \<Rightarrow> string \<Rightarrow> world \<Rightarrow> string promise \<times> world" where
  "zipDir env directory w =
     (let (started, w1) = zipDir_start env directory w in zipDir_settle started w1)"

subsection \<open>uploadArchive\<close>

text \<open>
  \<open>fs.unlinkSync\<close>: throws on a path that is not a string and on a file that does not
  exist, removes the file otherwise.
\<close>

definition unlinkSync :: "string option \<Rightarrow> world \<Rightarrow> js_error + world" where
  "unlinkSync p w =
     (case p of
        None \<Rightarrow> Inl (TypeError ''path must be a string or Buffer'')
      | Some f \<Rightarrow>
          if f \<in> files w then Inr (w\<lparr>files := files w - {f}\<rparr>)
          else Inl (Error (''ENOENT: no such file or directory, unlink '' @ f)))"

text \<open>
  The inner function \<open>cleanup (archive)\<close>: its parameter hides the \<open>archive\<close> of
  \<open>uploadArchive\<close>. The \<open>try\<close> block ignores what \<open>unlinkSync\<close> throws.
\<close>

definition cleanup :: "string option \<Rightarrow> world \<Rightarrow> world" where
  "cleanup archive w =
     (let w1 = invoke (UnlinkSync archive) w in
      case unlinkSync archive w1 of Inl err \<Rightarrow> w1 | Inr w2 \<Rightarrow> w2)"

definition uploadArchive_start :: "env \<Rightarrow> string \<Rightarrow> world \<Rightarrow> (string \<times> js_error option) \<times> world" where
  "uploadArchive_start env archive w =
     ((archive, bucket_upload env archive (tick w)), invoke (BucketUpload archive) w)"

text \<open>Both callbacks call \<open>cleanup()\<close> with no argument: the parameter is \<open>undefined\<close>.\<close>

definition uploadArchive_settle :: "string \<times> js_error option \<Rightarrow> world \<Rightarrow> string promise \<times> world" where
  "uploadArchive_settle started w =
     (case snd started of
        None \<Rightarrow> (Resolved (fst started), cleanup None w)
      | Some err \<Rightarrow> (Rejected err, cleanup None w))"

definition uploadArchive :: "env \<Rightarrow> string \<Rightarrow> world \<Rightarrow> string promise \<times> world" where
  "uploadArchive env archive w =
     (let (started, w1) = uploadArchive_start env archive w in uploadArchive_settle started w1)"

subsection \<open>getClient\<close>

datatype client_promise = Cached gcf_client | Authenticating "js_error + auth_client"

definition createScoped :: "auth_client \<Rightarrow> string list \<Rightarrow> auth_client" where
  "createScoped a ss = a\<lparr>scopes := ss\<rparr>"

definition cloudfunctions :: "string \<Rightarrow> auth_client \<Rightarrow> world \<Rightarrow> gcf_client \<times> world" where
  "cloudfunctions v a w =
     (\<lparr>oid = allocated w, version = v, auth = a\<rparr>, w\<lparr>allocated := Suc (allocated w)\<rparr>)"

text \<open>
  The call itself: with a handle in \<open>client\<close> it returns a resolved promise, without one it
  asks for the application default credentials and returns a promise that the callback
  settles later.
\<close>

definition getClient_start :: "env \<Rightarrow> world \<Rightarrow> client_promise \<times> world" where
  "getClient_start env w =
     (case client w of
        Some c \<Rightarrow> (Cached c, w)
      | None \<Rightarrow> (Authenticating (getApplicationDefault env (tick w)), invoke GetApplicationDefault w))"

definition getClient_settle :: "client_promise \<Rightarrow> world \<Rightarrow> gcf_client promise \<times> world" where
  "getClient_settle p w =
     (case p of
        Cached c \<Rightarrow> (Resolved c, w)
      | Authenticating (Inl err) \<Rightarrow> (Rejected err, w)
      | Authenticating (Inr authClient) \<Rightarrow>
          (let authClient1 =
                 (if createScopedRequired authClient = Some True
                  then createScoped authClient [''https://www.googleapis.com/auth/cloud-platform'']
                  else authClient);
               (c, w1) = cloudfunctions ''v1beta2'' authClient1 w
           in (Resolved c, w1\<lparr>client := Some c\<rparr>)))"

definition getClient :: "env \<Rightarrow> world \<Rightarrow> gcf_client promise \<times> world" where
  "getClient env w = (let (p, w1) = getClient_start env w in getClient_settle p w1)"

subsection \<open>pollOperation\<close>

text \<open>
  The loop has no bound in the source; \<open>fuel\<close> is the number of queries observed, and a
  poll that is still waiting after them is \<open>Pending\<close>. In the \<open>done\<close> branch the log line
  reads \<open>_operation.response.name\<close>, which throws inside the callback when the operation
  has no \<open>response\<close>.
\<close>

fun pollOperation ::
  "env \<Rightarrow> nat \<Rightarrow> gcf_client \<Rightarrow> operation \<Rightarrow> world \<Rightarrow> cloud_function promise \<times> world" where
  "pollOperation env 0 gcf operation w = (Pending, w)"
| "pollOperation env (Suc fuel) gcf operation w =
     (let w1 = invoke (OperationsGet gcf (op_name operation)) w in
      case operations_get env gcf (op_name operation) (tick w) of
        Inl err \<Rightarrow> (Rejected err, w1)
      | Inr operation' \<Rightarrow>
          if op_done operation' then
            (case response operation' of
               None \<Rightarrow> (Uncaught (TypeError ''Cannot read property name of undefined''), w1)
             | Some r \<Rightarrow> (Resolved r, w1))
          else pollOperation env fuel gcf operation w1)"

subsection \<open>createOrUpdateFunction\<close>

text \<open>\<open>err.errors && err.errors[0] && err.errors[0].reason === 'alreadyExists'\<close>\<close>

definition already_exists :: "js_error \<Rightarrow> bool" where
  "already_exists err =
     (case errors err of
        None \<Rightarrow> False
      | Some [] \<Rightarrow> False
      | Some (item # _) \<Rightarrow> reason item = Some ''alreadyExists'')"

definition createOrUpdateFunction ::
  "env \<Rightarrow> gcf_client \<Rightarrow> string \<Rightarrow> resource \<Rightarrow> world \<Rightarrow> operation promise \<times> world" where
  "createOrUpdateFunction env gcf location' resource' w =
     (let w1 = invoke (FunctionsCreate gcf resource' location') w in
      case functions_create env gcf resource' location' (tick w) of
        Inl err \<Rightarrow>
          if already_exists err then
            (let w2 = invoke (FunctionsUpdate gcf resource' (name resource')) w1 in
             case functions_update env gcf resource' (name resource') (tick w1) of
               Inl err' \<Rightarrow> (Rejected err', w2)
             | Inr operation \<Rightarrow> (Resolved operation, w2))
          else (Rejected err, w1)
      | Inr operation \<Rightarrow> (Resolved operation, w1))"

subsection \<open>deployFunction\<close>

definition deployFunction_start :: "env \<Rightarrow> world \<Rightarrow> client_promise \<times> world" where
  "deployFunction_start env w = getClient_start env w"

definition deployFunction_settle ::
  "env \<Rightarrow> nat \<Rightarrow> string \<Rightarrow> string \<Rightarrow> client_promise \<Rightarrow> world \<Rightarrow> cloud_function promise \<times> world" where
  "deployFunction_settle env fuel archive name' p w =
     then_p (getClient_settle p w) (\<lambda>gcf w1.
       let location' = ''projects/'' @ tpl (PROJECT_ID env) @ ''/locations/'' @ location (config env);
           resource' = \<lparr>sourceArchiveUrl =
                          ''gs://'' @ stageBucket (config env) @ ''/'' @ path_base archive,
                        name = location' @ ''/functions/'' @ name',
                        httpsTrigger = []\<rparr>
       in then_p (createOrUpdateFunction env gcf location' resource' w1)
            (\<lambda>operation w2. pollOperation env fuel gcf operation w2))"

definition deployFunction ::
  "env \<Rightarrow> nat \<Rightarrow> string \<Rightarrow> string \<Rightarrow> world \<Rightarrow> cloud_function promise \<times> world" where
  "deployFunction env fuel archive name' w =
     (let (p, w1) = deployFunction_start env w in deployFunction_settle env fuel archive name' p w1)"

subsection \<open>getCurrentDeployments and validateRequest\<close>

definition getCurrentDeployments :: "env \<Rightarrow> string \<Rightarrow> world \<Rightarrow> unit promise \<times> world" where
  "getCurrentDeployments env repository' w =
     (let w1 = w\<lparr>currentDeployments :=
                   filter (\<lambda>deployment. repository deployment = repository')
                     (deployments (config env))\<rparr>
      in if length (currentDeployments w1) = 0
         then (Rejected (Error (''No matching deployments for '' @ repository' @ ''.'')), w1)
         else (Resolved (), w1))"

text \<open>\<open>JSON.stringify\<close> returns \<open>undefined\<close> for \<open>undefined\<close>, a string for any other value.\<close>

definition stringify :: "env \<Rightarrow> json \<Rightarrow> string option" where
  "stringify env v = (if v = JUndefined then None else Some (JSON_stringify env v))"

text \<open>\<open>hmac.update\<close> throws on \<open>undefined\<close>; inside \<open>then\<close> that rejects the promise.\<close>

definition validateRequest :: "env \<Rightarrow> request \<Rightarrow> world \<Rightarrow> unit promise \<times> world" where
  "validateRequest env req w =
     (let w1 = invoke (CreateHmac (secretToken (config env))) w in
      case stringify env (body req) of
        None \<Rightarrow> (Rejected (TypeError ''Data must be a string or a buffer''), w1)
      | Some s \<Rightarrow>
          (let digest = hmac_sha1_hex env (secretToken (config env)) s in
           if map_of (headers req) ''x-hub-signature'' \<noteq> Some (''sha1='' @ digest)
           then (Rejected ((Error ''Unauthorized'')\<lparr>statusCode := Some 403\<rparr>), w1)
           else (Resolved (), w1)))"

subsection \<open>githubAutoDeployer\<close>

text \<open>\<open>xs[i]\<close>: \<open>undefined\<close> out of range.\<close>

definition nth_opt :: "'a list \<Rightarrow> nat \<Rightarrow> 'a option" where
  "nth_opt xs i = (if i < length xs then Some (xs ! i) else None)"

text \<open>
  Lines 236 to 238: \<open>req.body.repository.owner.name\<close>, \<open>req.body.repository.name\<close>
  and the template literal \<open>`${user}/${repo}`\<close>, which converts \<open>user\<close> and then
  \<open>repo\<close> to a string. They run before the promise chain exists, so what they throw
  leaves the handler. The result is \<open>repository\<close> and \<open>repo\<close>.
\<close>

definition read_repository :: "request \<Rightarrow> js_error + (string \<times> json)" where
  "read_repository req =
     (case member (body req) ''repository'' of
        Inl e \<Rightarrow> Inl e
      | Inr r \<Rightarrow>
          (case member r ''owner'' of
             Inl e \<Rightarrow> Inl e
           | Inr owner \<Rightarrow>
               (case member owner ''name'' of
                  Inl e \<Rightarrow> Inl e
                | Inr user \<Rightarrow>
                    (case member (body req) ''repository'' of
                       Inl e \<Rightarrow> Inl e
                     | Inr r' \<Rightarrow>
                         (case member r' ''name'' of
                            Inl e \<Rightarrow> Inl e
                          | Inr repo \<Rightarrow>
                              (case to_str user of
                                 Inl e \<Rightarrow> Inl e
                               | Inr u \<Rightarrow>
                                   (case to_str repo of
                                      Inl e \<Rightarrow> Inl e
                                    | Inr p \<Rightarrow> Inr (u @ ''/'' @ p, repo))))))))"

text \<open>
  A stage over all the deployments: \<open>map\<close> starts every member before any callback runs,
  then the callbacks run; they are taken in list order.
\<close>

definition zip_members :: "env \<Rightarrow> string \<Rightarrow> world \<Rightarrow> string promise list \<times> world" where
  "zip_members env directory w =
     (let (started, w1) =
            map_world (\<lambda>deployment. zipDir_start env (path_join env directory (path deployment)))
              (currentDeployments w) w
      in map_world zipDir_settle started w1)"

definition upload_members :: "env \<Rightarrow> string list \<Rightarrow> world \<Rightarrow> string promise list \<times> world" where
  "upload_members env archives w =
     (let (started, w1) = map_world (uploadArchive_start env) archives w
      in map_world uploadArchive_settle started w1)"

text \<open>
  \<open>archives.map((archive, i) => deployFunction(archive, config.currentDeployments[i].functionName))\<close>:
  reading \<open>functionName\<close> of a missing entry throws and ends the \<open>map\<close>; the members
  started before it stay in flight.
\<close>

fun start_deploys ::
  "env \<Rightarrow> nat \<Rightarrow> string list \<Rightarrow> world \<Rightarrow>
     ((string \<times> string \<times> client_promise) list \<times> js_error option) \<times> world" where
  "start_deploys env i [] w = (([], None), w)"
| "start_deploys env i (archive # rest) w =
     (case nth_opt (currentDeployments w) i of
        None \<Rightarrow> (([], Some (TypeError ''Cannot read property functionName of undefined'')), w)
      | Some d \<Rightarrow>
          (let (p, w1) = deployFunction_start env w;
               ((ps, thrown), w2) = start_deploys env (Suc i) rest w1
           in (((archive, functionName d, p) # ps, thrown), w2)))"

definition deploy_members ::
  "env \<Rightarrow> nat \<Rightarrow> string list \<Rightarrow> world \<Rightarrow> (cloud_function promise list \<times> js_error option) \<times> world" where
  "deploy_members env fuel archives w =
     (let ((started, thrown), w1) = start_deploys env 0 archives w;
          (ds, w2) =
            map_world (\<lambda>(archive, name', p). deployFunction_settle env fuel archive name' p)
              started w1
      in ((ds, thrown), w2))"

definition zip_all :: "env \<Rightarrow> string \<Rightarrow> world \<Rightarrow> string list promise \<times> world" where
  "zip_all env directory w =
     (let (zs, w1) = zip_members env directory w in (promise_all (race env (tick w1)) zs, w1))"

definition upload_all :: "env \<Rightarrow> string list \<Rightarrow> world \<Rightarrow> string list promise \<times> world" where
  "upload_all env archives w =
     (let (us, w1) = upload_members env archives w in (promise_all (race env (tick w1)) us, w1))"

definition deploy_all ::
  "env \<Rightarrow> nat \<Rightarrow> string list \<Rightarrow> world \<Rightarrow> cloud_function list promise \<times> world" where
  "deploy_all env fuel archives w =
     (let ((ds, thrown), w1) = deploy_members env fuel archives w
      in case thrown of
           Some e \<Rightarrow> (Rejected e, w1)
         | None \<Rightarrow> (promise_all (race env (tick w1)) ds, w1))"

text \<open>\<open>results.forEach((result, i) => { result.deployment = config.currentDeployments[i]; })\<close>\<close>

definition annotate ::
  "cloud_function list \<Rightarrow> deployment list \<Rightarrow> (cloud_function \<times> deployment option) list" where
  "annotate results cds = map (\<lambda>(i, result). (result, nth_opt cds i)) (enumerate 0 results)"

definition send_results :: "cloud_function list \<Rightarrow> world \<Rightarrow> unit promise \<times> world" where
  "send_results results w =
     (Resolved (), w\<lparr>sent := sent w @ [(200, Results (annotate results (currentDeployments w)))]\<rparr>)"

text \<open>\<open>err.statusCode ? err.statusCode : 500\<close>: zero is falsy.\<close>

definition status_of :: "js_error \<Rightarrow> nat" where
  "status_of err =
     (case statusCode err of None \<Rightarrow> 500 | Some c \<Rightarrow> if c = 0 then 500 else c)"

definition catch_send :: "unit promise \<times> world \<Rightarrow> unit promise \<times> world" where
  "catch_send pw =
     (case fst pw of
        Rejected err \<Rightarrow>
          (Resolved (), (snd pw)\<lparr>sent := sent (snd pw) @ [(status_of err, Text (message err))]\<rparr>)
      | _ \<Rightarrow> pw)"

text \<open>
  The chain up to the deploy stage. The template literal \<open>`/tmp/${repo}`\<close> converts
  \<open>repo\<close> again, inside a callback of the chain.
\<close>

definition stages ::
  "env \<Rightarrow> nat \<Rightarrow> request \<Rightarrow> string \<Rightarrow> json \<Rightarrow> world \<Rightarrow> cloud_function list promise \<times> world" where
  "stages env fuel req repository' repo w =
     (let p1 = validateRequest env req w;
          p2 = then_p p1 (\<lambda>_. getCurrentDeployments env repository');
          p3 = then_p p2 (\<lambda>_ w'.
                 case to_str repo of
                   Inl e \<Rightarrow> (Rejected e, w')
                 | Inr p \<Rightarrow> downloadRepo env repository' (''/tmp/'' @ p) w');
          p4 = then_p p3 (\<lambda>directory. zip_all env directory);
          p5 = then_p p4 (\<lambda>archives. upload_all env archives)
      in then_p p5 (\<lambda>archives. deploy_all env fuel archives))"

text \<open>
  The handler: \<open>Inl\<close> is an exception that leaves it, \<open>Inr\<close> the promise it returns.
\<close>

definition githubAutoDeployer ::
  "env \<Rightarrow> nat \<Rightarrow> request \<Rightarrow> world \<Rightarrow> (js_error + unit promise) \<times> world" where
  "githubAutoDeployer env fuel req w =
     (case read_repository req of
        Inl e \<Rightarrow> (Inl e, w)
      | Inr (repository', repo) \<Rightarrow>
          (let p6 = stages env fuel req repository' repo w;
               p7 = then_p p6 send_results;
               p8 = catch_send p7
           in (Inr (fst p8), snd p8)))"

section \<open>What a request leaves unchanged\<close>

text \<open>The stages after the matcher change neither the matched deployments nor the response.\<close>

definition same_request :: "world \<Rightarrow> world \<Rightarrow> bool" where
  "same_request w w' \<longleftrightarrow> currentDeployments w' = currentDeployments w \<and> sent w' = sent w"

text \<open>
  The handle \<open>c\<close> is in \<open>client\<close>, and since \<open>w0\<close> no handle was built and the
  credentials were not asked for.
\<close>

definition cached :: "gcf_client \<Rightarrow> world \<Rightarrow> world \<Rightarrow> bool" where
  "cached c w0 w \<longleftrightarrow>
     client w = Some c \<and> allocated w = allocated w0
     \<and> filter (\<lambda>x. x = GetApplicationDefault) (trace w)
         = filter (\<lambda>x. x = GetApplicationDefault) (trace w0)"

section \<open>Concrete inputs\<close>

text \<open>
  A configuration with two deployments of \<open>octo/app\<close> and one of a repository whose name
  differs in case only, and collaborators that all succeed. The digest and the serializer
  are stand-ins for the libraries; the tokens differ from call to call.
\<close>

definition dep_alpha :: deployment where
  "dep_alpha = \<lparr>repository = ''octo/app'', path = ''fnA'', functionName = ''alpha''\<rparr>"

definition dep_other :: deployment where
  "dep_other = \<lparr>repository = ''Octo/app'', path = ''fnC'', functionName = ''gamma''\<rparr>"

definition dep_beta :: deployment where
  "dep_beta = \<lparr>repository = ''octo/app'', path = ''fnB'', functionName = ''beta''\<rparr>"

definition config0 :: config where
  "config0 = \<lparr>secretToken = ''s3cret'', stageBucket = ''B'', location = ''us-central1'',
     deployments = [dep_alpha, dep_other, dep_beta]\<rparr>"

definition adc :: auth_client where
  "adc = \<lparr>credential = ''adc'', createScopedRequired = Some True, scopes = []\<rparr>"

definition started_op :: "resource \<Rightarrow> operation" where
  "started_op r = \<lparr>op_name = name r, op_done = False, op_error = None, response = None\<rparr>"

definition finished_op :: "string \<Rightarrow> operation" where
  "finished_op n = \<lparr>op_name = n, op_done = True, op_error = None,
     response = Some \<lparr>fn_name = n, fn_sourceArchiveUrl = ''gs://B/x.zip''\<rparr>\<rparr>"

definition env0 :: env where
  "env0 = \<lparr>config = config0,
     PROJECT_ID = Some ''proj'',
     hmac_sha1_hex = (\<lambda>k d. ''hmac('' @ k @ '','' @ d @ '')''),
     JSON_stringify = (\<lambda>v. ''json('' @ (case to_str v of Inl e \<Rightarrow> [] | Inr t \<Rightarrow> t) @ '')''),
     path_join = (\<lambda>a b. a @ ''/'' @ b),
     randomstring_generate = (\<lambda>n k. replicate (n - 1) (CHR ''t'') @ [''0123456789'' ! (k mod 10)]),
     downloadGitRepo = (\<lambda>r d k. None),
     zipFolder = (\<lambda>d a k. None),
     bucket_upload = (\<lambda>a k. None),
     getApplicationDefault = (\<lambda>k. Inr adc),
     functions_create = (\<lambda>g r l k. Inr (started_op r)),
     functions_update = (\<lambda>g r n k. Inr (started_op r)),
     operations_get = (\<lambda>g n k. Inr (finished_op n)),
     race = (\<lambda>k n. 0)\<rparr>"

definition world0 :: world where
  "world0 = \<lparr>client = None, currentDeployments = [], files = {}, trace = [],
     allocated = 0, sent = []\<rparr>"

definition push_body :: json where
  "push_body = JObj [(''repository'',
     JObj [(''name'', JStr ''app''), (''owner'', JObj [(''name'', JStr ''octo'')])])]"

definition req_signed :: request where
  "req_signed = \<lparr>body = push_body,
     headers = [(''x-hub-signature'', ''sha1=hmac(s3cret,json([object Object]))'')]\<rparr>"

definition req_forged :: request where
  "req_forged = \<lparr>body = push_body, headers = [(''x-hub-signature'', ''sha1=0000'')]\<rparr>"

definition req_no_repository :: request where
  "req_no_repository = \<lparr>body = JObj [(''zen'', JStr ''Keep it simple'')],
     headers = [(''x-hub-signature'', ''sha1=0000'')]\<rparr>"

definition req_no_owner :: request where
  "req_no_owner = \<lparr>body = JObj [(''repository'', JObj [(''name'', JStr ''app'')])],
     headers = [(''x-hub-signature'', ''sha1=0000'')]\<rparr>"

definition req_unmatched :: request where
  "req_unmatched = \<lparr>body = JObj [(''repository'',
       JObj [(''name'', JStr ''APP''), (''owner'', JObj [(''name'', JStr ''octo'')])])],
     headers = [(''x-hub-signature'', ''sha1=hmac(s3cret,json([object Object]))'')]\<rparr>"

definition boom :: js_error where
  "boom = \<lparr>message = ''boom'', statusCode = None, errors = None\<rparr>"

definition exists_err :: js_error where
  "exists_err = \<lparr>message = ''Function already exists'', statusCode = None,
     errors = Some [\<lparr>reason = Some ''alreadyExists''\<rparr>]\<rparr>"

definition quota_err :: js_error where
  "quota_err = \<lparr>message = ''Quota exceeded'', statusCode = Some 429,
     errors = Some [\<lparr>reason = Some ''rateLimitExceeded''\<rparr>]\<rparr>"

text \<open>An operation that finished with an error: the API sets \<open>error\<close> and no \<open>response\<close>.\<close>

definition failed_op :: "string \<Rightarrow> operation" where
  "failed_op n = \<lparr>op_name = n, op_done = True, op_error = Some boom, response = None\<rparr>"

definition gcf0 :: gcf_client where
  "gcf0 = \<lparr>oid = 0, version = ''v1beta2'', auth = adc\<rparr>"

definition world_archived :: world where
  "world_archived = world0\<lparr>files := {''/tmp/abc123.zip''}\<rparr>"

definition res_alpha :: resource where
  "res_alpha = \<lparr>sourceArchiveUrl = ''gs://B/abc123.zip'',
     name = ''projects/proj/locations/us-central1/functions/alpha'', httpsTrigger = []\<rparr>"

definition loc0 :: string where
  "loc0 = ''projects/proj/locations/us-central1''"

definition env_existing :: env where
  "env_existing = env0\<lparr>functions_create :=
     (\<lambda>g r l k. if k = 0 then Inr (started_op r) else Inl exists_err)\<rparr>"

definition env_quota :: env where
  "env_quota = env0\<lparr>functions_create := (\<lambda>g r l k. Inl quota_err)\<rparr>"

definition env_update_fails :: env where
  "env_update_fails = env0\<lparr>functions_create := (\<lambda>g r l k. Inl exists_err),
     functions_update := (\<lambda>g r n k. Inl boom)\<rparr>"

definition gcf_scoped :: gcf_client where
  "gcf_scoped = \<lparr>oid = 0, version = ''v1beta2'',
     auth = adc\<lparr>scopes := [''https://www.googleapis.com/auth/cloud-platform'']\<rparr>\<rparr>"

definition env_same_token :: env where
  "env_same_token = env0\<lparr>randomstring_generate := (\<lambda>n k. replicate n (CHR ''a''))\<rparr>"


definition fn_alpha :: cloud_function where
  "fn_alpha = \<lparr>fn_name = ''projects/proj/locations/us-central1/functions/alpha'',
     fn_sourceArchiveUrl = ''gs://B/x.zip''\<rparr>"

definition fn_beta :: cloud_function where
  "fn_beta = \<lparr>fn_name = ''projects/proj/locations/us-central1/functions/beta'',
     fn_sourceArchiveUrl = ''gs://B/x.zip''\<rparr>"

definition gcf_second :: gcf_client where
  "gcf_second = gcf_scoped\<lparr>oid := 1\<rparr>"

definition world_deployed :: world where
  "world_deployed =
     \<lparr>client = Some gcf_second,
      currentDeployments = [dep_alpha, dep_beta],
      files = {''/tmp/tttttttttttt2.zip'', ''/tmp/tttttttttttt4.zip''},
      trace =
        [CreateHmac ''s3cret'', DownloadGitRepo ''octo/app'' ''/tmp/app'',
         Generate 13, ZipFolder ''/tmp/app/fnA'' ''/tmp/tttttttttttt2.zip'',
         Generate 13, ZipFolder ''/tmp/app/fnB'' ''/tmp/tttttttttttt4.zip'',
         BucketUpload ''/tmp/tttttttttttt2.zip'', BucketUpload ''/tmp/tttttttttttt4.zip'',
         UnlinkSync None, UnlinkSync None,
         GetApplicationDefault, GetApplicationDefault,
         FunctionsCreate gcf_scoped
           \<lparr>sourceArchiveUrl = ''gs://B/tttttttttttt2.zip'',
            name = ''projects/proj/locations/us-central1/functions/alpha'', httpsTrigger = []\<rparr>
           ''projects/proj/locations/us-central1'',
         OperationsGet gcf_scoped ''projects/proj/locations/us-central1/functions/alpha'',
         FunctionsCreate gcf_second
           \<lparr>sourceArchiveUrl = ''gs://B/tttttttttttt4.zip'',
            name = ''projects/proj/locations/us-central1/functions/beta'', httpsTrigger = []\<rparr>
           ''projects/proj/locations/us-central1'',
         OperationsGet gcf_second ''projects/proj/locations/us-central1/functions/beta''],
      allocated = 2,
      sent = [(200, Results [(fn_alpha, Some dep_alpha), (fn_beta, Some dep_beta)])]\<rparr>"







text \<open>
  A request whose repository name is an object with a member \<open>toString\<close>; a service
  whose status query answers, for the function \<open>beta\<close>, a finished operation with an
  error, without and with a response; and an upload that fails with a status code of zero.
\<close>

definition req_toString :: request where
  "req_toString = \<lparr>body = JObj [(''repository'',
       JObj [(''name'', JObj [(''toString'', JStr ''x'')]),
             (''owner'', JObj [(''name'', JStr ''octo'')])])],
     headers = [(''x-hub-signature'', ''sha1=0000'')]\<rparr>"






definition world_cached :: world where
  "world_cached = world0\<lparr>client := Some gcf_scoped, allocated := 1\<rparr>"

section \<open>Basic facts\<close>

lemmas input_defs = env0_def config0_def dep_alpha_def dep_beta_def dep_other_def adc_def
  started_op_def finished_op_def world0_def push_body_def req_signed_def boom_def
  quota_err_def gcf0_def gcf_scoped_def

lemma then_p_simps:
  "then_p (Resolved v, w) f = f v w"
  "then_p (Rejected e, w) g = (Rejected e, w)"
  "then_p (Uncaught e, w) g = (Uncaught e, w)"
  "then_p (Pending, w) g = (Pending, w)"
  by (simp_all add: then_p_def)

lemma validateRequest_world:
  "snd (validateRequest env req w) = invoke (CreateHmac (secretToken (config env))) w"
  by (simp add: validateRequest_def Let_def split: option.splits)

lemma getCurrentDeployments_none:
  "filter (\<lambda>d. repository d = r) (deployments (config env)) = [] \<Longrightarrow>
   getCurrentDeployments env r w
     = (Rejected (Error (''No matching deployments for '' @ r @ ''.'')),
        w\<lparr>currentDeployments := []\<rparr>)"
  by (simp add: getCurrentDeployments_def Let_def)

lemma handler_rejected:
  assumes "read_repository req = Inr (r, repo)"
    and "stages env fuel req r repo w = (Rejected e, w1)"
  shows "githubAutoDeployer env fuel req w
     = (Inr (Resolved ()), w1\<lparr>sent := sent w1 @ [(status_of e, Text (message e))]\<rparr>)"
  using assms by (simp add: githubAutoDeployer_def Let_def then_p_simps catch_send_def)

subsection \<open>Lists of promises\<close>



lemma resolutions_map [simp]: "resolutions (map Resolved vs) = Some vs"
  by (induction vs) auto

lemma rejections_map [simp]: "rejections (map Resolved vs) = []"
  by (induction vs) auto





subsection \<open>What the stages leave unchanged\<close>

lemma map_world_Cons:
  "map_world f (x # xs) w
     = (fst (f x w) # fst (map_world f xs (snd (f x w))), snd (map_world f xs (snd (f x w))))"
  by (simp add: Let_def case_prod_beta)


lemma map_world_invariant:
  assumes "\<And>x w. x \<in> set xs \<Longrightarrow> P w \<Longrightarrow> P (snd (f x w))" and "P w"
  shows "P (snd (map_world f xs w))"
  using assms
proof (induction xs arbitrary: w)
  case Nil
  then show ?case by simp
next
  case (Cons x xs)
  have "P (snd (f x w))"
    using Cons.prems by simp
  then have "P (snd (map_world f xs (snd (f x w))))"
    using Cons.IH Cons.prems(1) by simp
  then show ?case
    by (simp add: map_world_Cons del: map_world.simps(2))
qed

lemma then_p_invariant:
  assumes "P (snd pw)" and "\<And>v w. P w \<Longrightarrow> P (snd (f v w))"
  shows "P (snd (then_p pw f))"
  using assms by (cases "fst pw") (simp_all add: then_p_def)

lemma same_request_refl [simp]: "same_request w w"
  by (simp add: same_request_def)


















subsection \<open>How many members a stage has\<close>







lemma run_signed:
  "githubAutoDeployer env0 1 req_signed world0 = (Inr (Resolved ()), world_deployed)"
  by code_simp





section \<open>The artifact uploader\<close>

lemma uploadArchive_files: "files (snd (uploadArchive env archive w)) = files w"
  by (simp add: uploadArchive_def uploadArchive_start_def uploadArchive_settle_def cleanup_def
      unlinkSync_def invoke_def split: option.splits)

text \<open>
  C2. After an upload attempt, successful or not, the local archive file should be gone.
  The code leaves it in place: both callbacks call \<open>cleanup()\<close> without an argument, the
  parameter \<open>archive\<close> of \<open>cleanup\<close> hides the path, \<open>unlinkSync(undefined)\<close> throws and
  the \<open>try\<close> block ignores it. Here the archive \<open>/tmp/abc123.zip\<close> exists before the
  call and still exists after it, when the upload succeeds and when it fails.
\<close>

theorem uploadArchive_leaves_archive:
  "fst (uploadArchive env0 ''/tmp/abc123.zip'' world_archived) = Resolved ''/tmp/abc123.zip''
   \<and> ''/tmp/abc123.zip'' \<in> files (snd (uploadArchive env0 ''/tmp/abc123.zip'' world_archived))
   \<and> fst (uploadArchive (env0\<lparr>bucket_upload := (\<lambda>a k. Some boom)\<rparr>) ''/tmp/abc123.zip'' world_archived)
       = Rejected boom
   \<and> ''/tmp/abc123.zip''
       \<in> files (snd (uploadArchive (env0\<lparr>bucket_upload := (\<lambda>a k. Some boom)\<rparr>)
                        ''/tmp/abc123.zip'' world_archived))
   \<and> trace (snd (uploadArchive env0 ''/tmp/abc123.zip'' world_archived))
       = [BucketUpload ''/tmp/abc123.zip'', UnlinkSync None]"
  by (simp add: uploadArchive_files)
     (simp add: uploadArchive_def uploadArchive_start_def uploadArchive_settle_def cleanup_def
      unlinkSync_def invoke_def tick_def input_defs world_archived_def)

section \<open>Polling\<close>

text \<open>
  C3. A poll that observes a finished operation should reject when the operation carries
  an error and resolve with the payload otherwise. The code never reads the operation's
  \<open>error\<close>: on a finished operation with an error and no response the callback throws
  while it builds its log line, so the promise is neither rejected nor resolved; with an
  error and a response it resolves with the response.
\<close>

theorem pollOperation_done_with_error:
  "fst (pollOperation (env0\<lparr>operations_get := (\<lambda>g n k. Inr (failed_op n))\<rparr>) 3 gcf0
          (started_op \<lparr>sourceArchiveUrl = ''gs://B/x.zip'', name = ''f'', httpsTrigger = []\<rparr>) world0)
     = Uncaught (TypeError ''Cannot read property name of undefined'')
   \<and> fst (pollOperation
          (env0\<lparr>operations_get := (\<lambda>g n k. Inr ((finished_op n)\<lparr>op_error := Some boom\<rparr>))\<rparr>) 3 gcf0
          (started_op \<lparr>sourceArchiveUrl = ''gs://B/x.zip'', name = ''f'', httpsTrigger = []\<rparr>) world0)
     = Resolved \<lparr>fn_name = ''f'', fn_sourceArchiveUrl = ''gs://B/x.zip''\<rparr>"
  by (simp add: numeral_3_eq_3 input_defs failed_op_def invoke_def tick_def)

section \<open>The deployment matcher\<close>

text \<open>
  C4. The matcher keeps exactly the configured deployments whose \<open>repository\<close> equals the
  identifier, in configuration order. When none matches it fails with the message
  \<open>No matching deployments for <repository>.\<close>; a validated request then gets the
  response 500 with that message, and the only collaborator called is the digest of the
  validation: the repository is not fetched.
\<close>

theorem getCurrentDeployments_selects:
  "currentDeployments (snd (getCurrentDeployments env r w))
     = filter (\<lambda>d. repository d = r) (deployments (config env))
   \<and> fst (getCurrentDeployments env r w)
     = (if filter (\<lambda>d. repository d = r) (deployments (config env)) = []
        then Rejected (Error (''No matching deployments for '' @ r @ ''.''))
        else Resolved ())
   \<and> (read_repository req = Inr (r, repo)
        \<and> fst (validateRequest env req w0) = Resolved ()
        \<and> filter (\<lambda>d. repository d = r) (deployments (config env)) = []
      \<longrightarrow> fst (githubAutoDeployer env fuel req w0) = Inr (Resolved ())
        \<and> sent (snd (githubAutoDeployer env fuel req w0))
            = sent w0 @ [(500, Text (''No matching deployments for '' @ r @ ''.''))]
        \<and> trace (snd (githubAutoDeployer env fuel req w0))
            = trace w0 @ [CreateHmac (secretToken (config env))])"
proof (intro conjI impI)
  show "currentDeployments (snd (getCurrentDeployments env r w))
     = filter (\<lambda>d. repository d = r) (deployments (config env))"
    by (simp add: getCurrentDeployments_def Let_def)
  show "fst (getCurrentDeployments env r w)
     = (if filter (\<lambda>d. repository d = r) (deployments (config env)) = []
        then Rejected (Error (''No matching deployments for '' @ r @ ''.''))
        else Resolved ())"
    by (simp add: getCurrentDeployments_def Let_def)
next
  assume h: "read_repository req = Inr (r, repo)
        \<and> fst (validateRequest env req w0) = Resolved ()
        \<and> filter (\<lambda>d. repository d = r) (deployments (config env)) = []"
  let ?w1 = "invoke (CreateHmac (secretToken (config env))) w0"
  have v: "validateRequest env req w0 = (Resolved (), ?w1)"
    using h validateRequest_world [of env req w0] by (metis prod.collapse)
  from h have none: "filter (\<lambda>d. repository d = r) (deployments (config env)) = []"
    by blast
  have g: "getCurrentDeployments env r ?w1
      = (Rejected (Error (''No matching deployments for '' @ r @ ''.'')),
         ?w1\<lparr>currentDeployments := []\<rparr>)"
    by (rule getCurrentDeployments_none [OF none])
  from h have shape: "read_repository req = Inr (r, repo)"
    by blast
  have st: "stages env fuel req r repo w0
      = (Rejected (Error (''No matching deployments for '' @ r @ ''.'')),
         ?w1\<lparr>currentDeployments := []\<rparr>)"
    unfolding stages_def Let_def v g then_p_simps ..
  note hr = handler_rejected [OF shape st]
  show "fst (githubAutoDeployer env fuel req w0) = Inr (Resolved ())"
    by (simp add: hr)
  show "sent (snd (githubAutoDeployer env fuel req w0))
            = sent w0 @ [(500, Text (''No matching deployments for '' @ r @ ''.''))]"
    by (simp add: hr status_of_def Error_def invoke_def)
  show "trace (snd (githubAutoDeployer env fuel req w0))
            = trace w0 @ [CreateHmac (secretToken (config env))]"
    by (simp add: hr invoke_def)
qed

text \<open>
  The request for \<open>octo/APP\<close> passes validation and matches nothing (the configured
  repositories are \<open>octo/app\<close> and \<open>Octo/app\<close>); a request for \<open>octo/app\<close> selects the
  first and the third entry, in that order.
\<close>

theorem getCurrentDeployments_selects_witness:
  "read_repository req_unmatched = Inr (''octo/APP'', JStr ''APP'')
   \<and> fst (validateRequest env0 req_unmatched world0) = Resolved ()
   \<and> filter (\<lambda>d. repository d = ''octo/APP'') (deployments (config env0)) = []
   \<and> fst (githubAutoDeployer env0 1 req_unmatched world0) = Inr (Resolved ())
   \<and> sent (snd (githubAutoDeployer env0 1 req_unmatched world0))
       = [(500, Text ''No matching deployments for octo/APP.'')]
   \<and> trace (snd (githubAutoDeployer env0 1 req_unmatched world0)) = [CreateHmac ''s3cret'']
   \<and> currentDeployments (snd (getCurrentDeployments env0 ''octo/app'' world0))
       = [dep_alpha, dep_beta]"
proof -
  have shape: "read_repository req_unmatched = Inr (''octo/APP'', JStr ''APP'')"
    by (simp add: read_repository_def member_def input_defs req_unmatched_def)
  have valid: "fst (validateRequest env0 req_unmatched world0) = Resolved ()"
    by (simp add: validateRequest_def stringify_def Let_def input_defs req_unmatched_def)
  have none: "filter (\<lambda>d. repository d = ''octo/APP'') (deployments (config env0)) = []"
    by (simp add: input_defs req_unmatched_def)
  have sel: "filter (\<lambda>d. repository d = ''octo/app'') (deployments (config env0))
      = [dep_alpha, dep_beta]"
    by (simp add: input_defs req_unmatched_def)
  note at_unmatched = getCurrentDeployments_selects [of env0 "''octo/APP''" world0 req_unmatched
      "JStr ''APP''" world0 1]
  note at_matched = getCurrentDeployments_selects [of env0 "''octo/app''" world0 req_unmatched
      "JStr ''APP''" world0 1]
  from at_unmatched shape valid none
  have "fst (githubAutoDeployer env0 1 req_unmatched world0) = Inr (Resolved ())
     \<and> sent (snd (githubAutoDeployer env0 1 req_unmatched world0))
         = sent world0 @ [(500, Text (''No matching deployments for '' @ ''octo/APP'' @ ''.''))]
     \<and> trace (snd (githubAutoDeployer env0 1 req_unmatched world0))
         = trace world0 @ [CreateHmac (secretToken (config env0))]"
    by blast
  moreover from at_matched sel
  have "currentDeployments (snd (getCurrentDeployments env0 ''octo/app'' world0))
      = [dep_alpha, dep_beta]"
    by simp
  ultimately show ?thesis
    using shape valid none by (simp add: input_defs req_unmatched_def)
qed

section \<open>Create or update\<close>

lemma already_exists_iff:
  "already_exists err \<longleftrightarrow> (\<exists>item rest. errors err = Some (item # rest) \<and> reason item = Some ''alreadyExists'')"
  by (auto simp: already_exists_def split: option.splits list.splits)

text \<open>
  C6. When the create call answers with an error whose first entry in \<open>errors\<close> has the
  reason \<open>alreadyExists\<close>, one update call is made with the same resource and the
  resource's name, and its answer is the result. A create error of any other shape
  rejects after the single create call; an update error rejects after the single update
  call; a successful create resolves with its operation.
\<close>

theorem createOrUpdateFunction_routes:
  "(functions_create env gcf r loc (tick w) = Inr operation \<longrightarrow>
      createOrUpdateFunction env gcf loc r w
        = (Resolved operation, invoke (FunctionsCreate gcf r loc) w))
   \<and> (functions_create env gcf r loc (tick w) = Inl err
        \<and> (\<nexists>item rest. errors err = Some (item # rest) \<and> reason item = Some ''alreadyExists'') \<longrightarrow>
      createOrUpdateFunction env gcf loc r w
        = (Rejected err, invoke (FunctionsCreate gcf r loc) w))
   \<and> (functions_create env gcf r loc (tick w) = Inl err
        \<and> errors err = Some (item # rest) \<and> reason item = Some ''alreadyExists'' \<longrightarrow>
      createOrUpdateFunction env gcf loc r w
        = ((case functions_update env gcf r (name r) (Suc (tick w)) of
              Inl err' \<Rightarrow> Rejected err'
            | Inr operation' \<Rightarrow> Resolved operation'),
           invoke (FunctionsUpdate gcf r (name r)) (invoke (FunctionsCreate gcf r loc) w)))"
proof (intro conjI impI)
  assume "functions_create env gcf r loc (tick w) = Inr operation"
  then show "createOrUpdateFunction env gcf loc r w
        = (Resolved operation, invoke (FunctionsCreate gcf r loc) w)"
    by (simp add: createOrUpdateFunction_def Let_def)
next
  assume "functions_create env gcf r loc (tick w) = Inl err
        \<and> (\<nexists>item rest. errors err = Some (item # rest) \<and> reason item = Some ''alreadyExists'')"
  then have "functions_create env gcf r loc (tick w) = Inl err" and "\<not> already_exists err"
    unfolding already_exists_iff by blast+
  then show "createOrUpdateFunction env gcf loc r w
        = (Rejected err, invoke (FunctionsCreate gcf r loc) w)"
    by (simp add: createOrUpdateFunction_def Let_def)
next
  assume h: "functions_create env gcf r loc (tick w) = Inl err
        \<and> errors err = Some (item # rest) \<and> reason item = Some ''alreadyExists''"
  then have "already_exists err"
    by (simp add: already_exists_def)
  with h show "createOrUpdateFunction env gcf loc r w
        = ((case functions_update env gcf r (name r) (Suc (tick w)) of
              Inl err' \<Rightarrow> Rejected err'
            | Inr operation' \<Rightarrow> Resolved operation'),
           invoke (FunctionsUpdate gcf r (name r)) (invoke (FunctionsCreate gcf r loc) w))"
    by (simp add: createOrUpdateFunction_def Let_def tick_def invoke_def split: sum.splits)
qed

text \<open>
  The function is created by the first call; the second call for the same name is answered
  \<open>alreadyExists\<close>, goes to update and resolves. A quota error rejects at once, and a
  failing update rejects after one attempt.
\<close>

theorem createOrUpdateFunction_routes_witness:
  "createOrUpdateFunction env_existing gcf0 loc0 res_alpha world0
     = (Resolved (started_op res_alpha), invoke (FunctionsCreate gcf0 res_alpha loc0) world0)
   \<and> createOrUpdateFunction env_existing gcf0 loc0 res_alpha
       (invoke (FunctionsCreate gcf0 res_alpha loc0) world0)
     = (Resolved (started_op res_alpha),
        world0\<lparr>trace := [FunctionsCreate gcf0 res_alpha loc0, FunctionsCreate gcf0 res_alpha loc0,
                           FunctionsUpdate gcf0 res_alpha (name res_alpha)]\<rparr>)
   \<and> createOrUpdateFunction env_quota gcf0 loc0 res_alpha world0
     = (Rejected quota_err, world0\<lparr>trace := [FunctionsCreate gcf0 res_alpha loc0]\<rparr>)
   \<and> createOrUpdateFunction env_update_fails gcf0 loc0 res_alpha world0
     = (Rejected boom,
        world0\<lparr>trace := [FunctionsCreate gcf0 res_alpha loc0,
                           FunctionsUpdate gcf0 res_alpha (name res_alpha)]\<rparr>)"
proof -
  let ?w1 = "invoke (FunctionsCreate gcf0 res_alpha loc0) world0"
  have c0: "functions_create env_existing gcf0 res_alpha loc0 (tick world0)
      = Inr (started_op res_alpha)"
    by (simp add: env_existing_def env0_def tick_def world0_def)
  have c1: "functions_create env_existing gcf0 res_alpha loc0 (tick ?w1) = Inl exists_err
      \<and> errors exists_err = Some (\<lparr>reason = Some ''alreadyExists''\<rparr> # [])
      \<and> reason \<lparr>reason = Some ''alreadyExists''\<rparr> = Some ''alreadyExists''"
    by (simp add: env_existing_def env0_def tick_def world0_def invoke_def exists_err_def)
  have c2: "functions_create env_quota gcf0 res_alpha loc0 (tick world0) = Inl quota_err
      \<and> (\<nexists>item rest. errors quota_err = Some (item # rest)
            \<and> reason item = Some ''alreadyExists'')"
    by (simp add: env_quota_def env0_def quota_err_def)
  have c3: "functions_create env_update_fails gcf0 res_alpha loc0 (tick world0) = Inl exists_err
      \<and> errors exists_err = Some (\<lparr>reason = Some ''alreadyExists''\<rparr> # [])
      \<and> reason \<lparr>reason = Some ''alreadyExists''\<rparr> = Some ''alreadyExists''"
    by (simp add: env_update_fails_def env0_def exists_err_def)
  from c0 createOrUpdateFunction_routes
    [of env_existing gcf0 res_alpha loc0 world0 "started_op res_alpha"]
  have r0: "createOrUpdateFunction env_existing gcf0 loc0 res_alpha world0
     = (Resolved (started_op res_alpha), ?w1)"
    by blast
  from c1 createOrUpdateFunction_routes
    [of env_existing gcf0 res_alpha loc0 ?w1 _ exists_err "\<lparr>reason = Some ''alreadyExists''\<rparr>" "[]"]
  have r1: "createOrUpdateFunction env_existing gcf0 loc0 res_alpha ?w1
     = ((case functions_update env_existing gcf0 res_alpha (name res_alpha) (Suc (tick ?w1)) of
              Inl err' \<Rightarrow> Rejected err'
            | Inr operation' \<Rightarrow> Resolved operation'),
           invoke (FunctionsUpdate gcf0 res_alpha (name res_alpha))
             (invoke (FunctionsCreate gcf0 res_alpha loc0) ?w1))"
    by blast
  from c2 createOrUpdateFunction_routes [of env_quota gcf0 res_alpha loc0 world0 _ quota_err]
  have r2: "createOrUpdateFunction env_quota gcf0 loc0 res_alpha world0
     = (Rejected quota_err, ?w1)"
    by blast
  from c3 createOrUpdateFunction_routes
    [of env_update_fails gcf0 res_alpha loc0 world0 _ exists_err
        "\<lparr>reason = Some ''alreadyExists''\<rparr>" "[]"]
  have r3: "createOrUpdateFunction env_update_fails gcf0 loc0 res_alpha world0
     = ((case functions_update env_update_fails gcf0 res_alpha (name res_alpha)
               (Suc (tick world0)) of
              Inl err' \<Rightarrow> Rejected err'
            | Inr operation' \<Rightarrow> Resolved operation'),
           invoke (FunctionsUpdate gcf0 res_alpha (name res_alpha)) ?w1)"
    by blast
  show ?thesis
    unfolding r0 r1 r2 r3
    by (simp add: env_existing_def env_update_fails_def env0_def invoke_def world0_def)
qed

section \<open>The deploy stage\<close>

lemma createOrUpdateFunction_trace:
  "\<exists>rest. trace (snd (createOrUpdateFunction env gcf loc r w))
     = trace w @ FunctionsCreate gcf r loc # rest"
  by (simp add: createOrUpdateFunction_def Let_def invoke_def split: sum.splits)

lemma pollOperation_trace:
  "\<exists>rest. trace (snd (pollOperation env fuel gcf operation w)) = trace w @ rest"
proof (induction fuel arbitrary: w)
  case 0
  show ?case by simp
next
  case (Suc fuel)
  obtain rest where
    "trace (snd (pollOperation env fuel gcf operation (invoke (OperationsGet gcf (op_name operation)) w)))
      = trace (invoke (OperationsGet gcf (op_name operation)) w) @ rest"
    using Suc.IH by blast
  then show ?case
    by (simp add: Let_def invoke_def split: sum.splits option.splits)
qed

lemma getClient_split:
  "getClient env w = getClient_settle (fst (getClient_start env w)) (snd (getClient_start env w))"
  by (simp add: getClient_def split: prod.splits)

text \<open>
  C5. Once the client handle is there, the deploy stage calls create with a resource
  whose source archive URL is \<open>gs://<stageBucket>/<base name of the archive path>\<close> and
  whose name is \<open>projects/<project>/locations/<location>/functions/<function name>\<close>.
\<close>

theorem deployFunction_resource:
  assumes "getClient env w = (Resolved gcf, w1)"
  shows "\<exists>rest. trace (snd (deployFunction env fuel archive fname w))
     = trace w1 @
       FunctionsCreate gcf
         \<lparr>sourceArchiveUrl = ''gs://'' @ stageBucket (config env) @ ''/'' @ path_base archive,
          name = ''projects/'' @ tpl (PROJECT_ID env) @ ''/locations/'' @ location (config env)
                   @ ''/functions/'' @ fname,
          httpsTrigger = []\<rparr>
         (''projects/'' @ tpl (PROJECT_ID env) @ ''/locations/'' @ location (config env)) # rest"
proof -
  let ?loc = "''projects/'' @ tpl (PROJECT_ID env) @ ''/locations/'' @ location (config env)"
  let ?r = "\<lparr>sourceArchiveUrl = ''gs://'' @ stageBucket (config env) @ ''/'' @ path_base archive,
          name = ?loc @ ''/functions/'' @ fname, httpsTrigger = []\<rparr>"
  let ?cu = "createOrUpdateFunction env gcf ?loc ?r w1"
  have d: "deployFunction env fuel archive fname w
      = then_p ?cu (\<lambda>operation w2. pollOperation env fuel gcf operation w2)"
  proof -
    obtain p w0 where gs: "getClient_start env w = (p, w0)"
      by (cases "getClient_start env w")
    with assms have "getClient_settle p w0 = (Resolved gcf, w1)"
      by (simp add: getClient_def)
    then show ?thesis
      by (simp add: deployFunction_def deployFunction_start_def deployFunction_settle_def gs
          then_p_simps Let_def)
  qed
  obtain rest1 where t1: "trace (snd ?cu) = trace w1 @ FunctionsCreate gcf ?r ?loc # rest1"
    using createOrUpdateFunction_trace by blast
  show ?thesis
  proof (cases "fst ?cu")
    case (Resolved operation)
    obtain rest2 where "trace (snd (pollOperation env fuel gcf operation (snd ?cu)))
        = trace (snd ?cu) @ rest2"
      using pollOperation_trace by blast
    with Resolved t1 show ?thesis
      by (simp add: d then_p_def)
  qed (use t1 in \<open>simp_all add: d then_p_def\<close>)
qed


text \<open>For the archive \<open>/tmp/abc123.zip\<close> and the bucket \<open>B\<close> the URL is \<open>gs://B/abc123.zip\<close>.\<close>

theorem deployFunction_resource_witness:
  "getClient env0 world0
     = (Resolved gcf_scoped,
        world0\<lparr>client := Some gcf_scoped, trace := [GetApplicationDefault], allocated := 1\<rparr>)
   \<and> (\<exists>rest. trace (snd (deployFunction env0 1 ''/tmp/abc123.zip'' ''alpha'' world0))
        = [GetApplicationDefault, FunctionsCreate gcf_scoped res_alpha loc0] @ rest)
   \<and> sourceArchiveUrl res_alpha = ''gs://B/abc123.zip''"
proof -
  let ?w1 = "world0\<lparr>client := Some gcf_scoped, trace := [GetApplicationDefault], allocated := 1\<rparr>"
  have g: "getClient env0 world0 = (Resolved gcf_scoped, ?w1)"
    by (simp add: getClient_def getClient_start_def getClient_settle_def cloudfunctions_def
        createScoped_def invoke_def tick_def Let_def input_defs res_alpha_def loc0_def)
  have r: "\<lparr>sourceArchiveUrl = ''gs://'' @ stageBucket (config env0) @ ''/''
                @ path_base ''/tmp/abc123.zip'',
            name = ''projects/'' @ tpl (PROJECT_ID env0) @ ''/locations/''
                @ location (config env0) @ ''/functions/'' @ ''alpha'',
            httpsTrigger = []\<rparr> = res_alpha"
    by (simp add: path_base_def tpl_def input_defs res_alpha_def loc0_def)
  have l: "''projects/'' @ tpl (PROJECT_ID env0) @ ''/locations/'' @ location (config env0) = loc0"
    by (simp add: tpl_def input_defs res_alpha_def loc0_def)
  from deployFunction_resource [OF g, of 1 "''/tmp/abc123.zip''" "''alpha''"]
  obtain rest where "trace (snd (deployFunction env0 1 ''/tmp/abc123.zip'' ''alpha'' world0))
      = trace ?w1 @ FunctionsCreate gcf_scoped res_alpha loc0 # rest"
    unfolding r l by blast
  then have "\<exists>rest. trace (snd (deployFunction env0 1 ''/tmp/abc123.zip'' ''alpha'' world0))
        = [GetApplicationDefault, FunctionsCreate gcf_scoped res_alpha loc0] @ rest"
    by simp
  with g show ?thesis
    by (simp add: res_alpha_def)
qed

section \<open>Request validation\<close>

lemma member_undefined:
  "\<exists>msg. member JUndefined k = Inl (TypeError msg)"
  by (simp add: member_def) blast

lemma read_repository_body:
  assumes "read_repository req = Inr (r, repo)"
  shows "body req \<noteq> JUndefined"
proof
  assume "body req = JUndefined"
  then have "isl (read_repository req)"
    by (simp add: read_repository_def member_def)
  with assms show False by simp
qed

text \<open>
  C1, for the requests from whose body the handler can form the repository identifier
  (it reads \<open>body.repository.owner.name\<close> and \<open>body.repository.name\<close> and converts both
  to strings before it validates): validation succeeds exactly when the header
  \<open>x-hub-signature\<close> is \<open>sha1=\<close> followed by the hex digest, keyed with the secret token,
  of the serialized body. On a mismatch the handler sends 403 with \<open>Unauthorized\<close>, and
  the only collaborator called is the digest: nothing is fetched, archived, uploaded or
  deployed.
\<close>

theorem validateRequest_gate:
  assumes "read_repository req = Inr (r, repo)"
  shows "(fst (validateRequest env req w) = Resolved ())
      = (map_of (headers req) ''x-hub-signature''
          = Some (''sha1='' @ hmac_sha1_hex env (secretToken (config env))
                                (JSON_stringify env (body req))))
    \<and> (map_of (headers req) ''x-hub-signature''
          \<noteq> Some (''sha1='' @ hmac_sha1_hex env (secretToken (config env))
                                (JSON_stringify env (body req)))
       \<longrightarrow> fst (githubAutoDeployer env fuel req w) = Inr (Resolved ())
         \<and> sent (snd (githubAutoDeployer env fuel req w)) = sent w @ [(403, Text ''Unauthorized'')]
         \<and> trace (snd (githubAutoDeployer env fuel req w))
             = trace w @ [CreateHmac (secretToken (config env))]
         \<and> files (snd (githubAutoDeployer env fuel req w)) = files w)"
proof (intro conjI impI)
  have b: "stringify env (body req) = Some (JSON_stringify env (body req))"
    using read_repository_body [OF assms] by (simp add: stringify_def)
  show "(fst (validateRequest env req w) = Resolved ())
      = (map_of (headers req) ''x-hub-signature''
          = Some (''sha1='' @ hmac_sha1_hex env (secretToken (config env))
                                (JSON_stringify env (body req))))"
    by (simp add: validateRequest_def Let_def b)
  assume m: "map_of (headers req) ''x-hub-signature''
          \<noteq> Some (''sha1='' @ hmac_sha1_hex env (secretToken (config env))
                                (JSON_stringify env (body req)))"
  let ?w1 = "invoke (CreateHmac (secretToken (config env))) w"
  let ?e = "(Error ''Unauthorized'')\<lparr>statusCode := Some 403\<rparr>"
  have v: "validateRequest env req w = (Rejected ?e, ?w1)"
    using m by (simp add: validateRequest_def Let_def b)
  have st: "stages env fuel req r repo w = (Rejected ?e, ?w1)"
    unfolding stages_def Let_def v then_p_simps ..
  note hr = handler_rejected [OF assms st]
  show "fst (githubAutoDeployer env fuel req w) = Inr (Resolved ())"
    by (simp add: hr)
  show "sent (snd (githubAutoDeployer env fuel req w)) = sent w @ [(403, Text ''Unauthorized'')]"
    by (simp add: hr status_of_def Error_def invoke_def)
  show "trace (snd (githubAutoDeployer env fuel req w))
             = trace w @ [CreateHmac (secretToken (config env))]"
    by (simp add: hr invoke_def)
  show "files (snd (githubAutoDeployer env fuel req w)) = files w"
    by (simp add: hr invoke_def)
qed

theorem validateRequest_gate_witness:
  "read_repository req_forged = Inr (''octo/app'', JStr ''app'')
   \<and> map_of (headers req_forged) ''x-hub-signature'' = Some ''sha1=0000''
   \<and> hmac_sha1_hex env0 (secretToken (config env0)) (JSON_stringify env0 (body req_forged))
       = ''hmac(s3cret,json([object Object]))''
   \<and> fst (validateRequest env0 req_forged world0) \<noteq> Resolved ()
   \<and> fst (validateRequest env0 req_signed world0) = Resolved ()
   \<and> sent (snd (githubAutoDeployer env0 1 req_forged world0)) = [(403, Text ''Unauthorized'')]
   \<and> trace (snd (githubAutoDeployer env0 1 req_forged world0)) = [CreateHmac ''s3cret'']"
proof -
  have shape: "read_repository req_forged = Inr (''octo/app'', JStr ''app'')"
    by (simp add: read_repository_def member_def input_defs req_forged_def)
  have shape': "read_repository req_signed = Inr (''octo/app'', JStr ''app'')"
    by (simp add: read_repository_def member_def input_defs req_forged_def)
  have h: "map_of (headers req_forged) ''x-hub-signature'' = Some ''sha1=0000''"
    by (simp add: input_defs req_forged_def)
  have h': "map_of (headers req_signed) ''x-hub-signature''
      = Some ''sha1=hmac(s3cret,json([object Object]))''"
    by (simp add: input_defs req_forged_def)
  have d: "hmac_sha1_hex env0 (secretToken (config env0)) (JSON_stringify env0 (body req_forged))
       = ''hmac(s3cret,json([object Object]))''"
    by (simp add: input_defs req_forged_def)
  have d': "hmac_sha1_hex env0 (secretToken (config env0)) (JSON_stringify env0 (body req_signed))
       = ''hmac(s3cret,json([object Object]))''"
    by (simp add: input_defs req_forged_def)
  note forged = validateRequest_gate [OF shape, of env0 world0 1]
  note signed = validateRequest_gate [OF shape', of env0 world0 1]
  from forged have "fst (validateRequest env0 req_forged world0) \<noteq> Resolved ()"
    unfolding h d by simp
  moreover from signed have "fst (validateRequest env0 req_signed world0) = Resolved ()"
    unfolding h' d' by simp
  moreover from forged
  have "sent (snd (githubAutoDeployer env0 1 req_forged world0))
          = sent world0 @ [(403, Text ''Unauthorized'')]
      \<and> trace (snd (githubAutoDeployer env0 1 req_forged world0))
          = trace world0 @ [CreateHmac (secretToken (config env0))]"
    unfolding h d by simp
  ultimately show ?thesis
    using shape h d by (simp add: input_defs req_forged_def)
qed

text \<open>
  C1 as stated, for every request, fails. A request with a wrong signature gets no
  response at all, the handler throws before it validates, when its body has no
  \<open>repository\<close>, and also when the repository name is an object with a member
  \<open>toString\<close>, which the template literal cannot convert.
\<close>

theorem handler_unvalidated_throw:
  "map_of (headers req_no_repository) ''x-hub-signature''
     \<noteq> Some (''sha1='' @ hmac_sha1_hex env0 (secretToken (config env0))
                           (JSON_stringify env0 (body req_no_repository)))
   \<and> isl (fst (githubAutoDeployer env0 1 req_no_repository world0))
   \<and> snd (githubAutoDeployer env0 1 req_no_repository world0) = world0
   \<and> map_of (headers req_toString) ''x-hub-signature''
     \<noteq> Some (''sha1='' @ hmac_sha1_hex env0 (secretToken (config env0))
                           (JSON_stringify env0 (body req_toString)))
   \<and> fst (githubAutoDeployer env0 1 req_toString world0)
     = Inl (TypeError ''Cannot convert object to primitive value'')
   \<and> snd (githubAutoDeployer env0 1 req_toString world0) = world0
   \<and> sent world0 = [] \<and> trace world0 = []"
  by (simp add: githubAutoDeployer_def read_repository_def member_def input_defs
      req_no_repository_def req_toString_def)

text \<open>
  C10. When the body has no \<open>repository\<close>, or its \<open>repository\<close> has no \<open>owner\<close>, the
  handler throws a TypeError while it reads \<open>body.repository.owner.name\<close>: the state is
  unchanged, so no validation ran and no response, 403 or 500, was sent.
\<close>

theorem handler_throws_early:
  assumes "member (body req) ''repository'' = Inr JUndefined
     \<or> (\<exists>r. member (body req) ''repository'' = Inr r \<and> member r ''owner'' = Inr JUndefined)"
  shows "\<exists>msg. githubAutoDeployer env fuel req w = (Inl (TypeError msg), w)"
proof -
  from assms have "\<exists>msg. read_repository req = Inl (TypeError msg)"
  proof
    assume "member (body req) ''repository'' = Inr JUndefined"
    moreover obtain msg where "member JUndefined ''owner'' = Inl (TypeError msg)"
      using member_undefined by blast
    ultimately have "read_repository req = Inl (TypeError msg)"
      by (simp add: read_repository_def)
    then show ?thesis
      by blast
  next
    assume "\<exists>r. member (body req) ''repository'' = Inr r \<and> member r ''owner'' = Inr JUndefined"
    then obtain r where "member (body req) ''repository'' = Inr r"
      and "member r ''owner'' = Inr JUndefined"
      by blast
    moreover obtain msg where "member JUndefined ''name'' = Inl (TypeError msg)"
      using member_undefined by blast
    ultimately have "read_repository req = Inl (TypeError msg)"
      by (simp add: read_repository_def)
    then show ?thesis
      by blast
  qed
  then show ?thesis
    by (auto simp: githubAutoDeployer_def)
qed

theorem handler_throws_early_witness:
  "member (body req_no_repository) ''repository'' = Inr JUndefined
   \<and> member (body req_no_owner) ''repository'' = Inr (JObj [(''name'', JStr ''app'')])
   \<and> member (JObj [(''name'', JStr ''app'')]) ''owner'' = Inr JUndefined
   \<and> (\<exists>msg. githubAutoDeployer env0 1 req_no_repository world0 = (Inl (TypeError msg), world0))
   \<and> (\<exists>msg. githubAutoDeployer env0 1 req_no_owner world0 = (Inl (TypeError msg), world0))
   \<and> sent world0 = [] \<and> trace world0 = []"
proof -
  have a: "member (body req_no_repository) ''repository'' = Inr JUndefined"
    by (simp add: member_def input_defs req_no_repository_def req_no_owner_def)
  have b: "member (body req_no_owner) ''repository'' = Inr (JObj [(''name'', JStr ''app'')])"
    by (simp add: member_def input_defs req_no_repository_def req_no_owner_def)
  have c: "member (JObj [(''name'', JStr ''app'')]) ''owner'' = Inr JUndefined"
    by (simp add: member_def)
  from a have "\<exists>msg. githubAutoDeployer env0 1 req_no_repository world0 = (Inl (TypeError msg), world0)"
    by (intro handler_throws_early) simp
  moreover from b c
  have "\<exists>msg. githubAutoDeployer env0 1 req_no_owner world0 = (Inl (TypeError msg), world0)"
    by (intro handler_throws_early) simp
  ultimately show ?thesis
    using a b c by (simp add: world0_def)
qed

section \<open>The archiver\<close>

lemma replicate_13: "replicate 13 c = [c, c, c, c, c, c, c, c, c, c, c, c, c]"
  by (simp add: eval_nat_numeral)

text \<open>
  C8, as the code has it: an archiver call draws one token with
  \<open>randomstring.generate(13)\<close> and hands \<open>zipFolder\<close> the path \<open>/tmp/<token>.zip\<close>, nine
  characters longer than the token; it resolves with that path when \<open>zipFolder\<close>
  succeeds. Two calls choose the same path exactly when they drew the same token.
\<close>

theorem zipDir_archive_path:
  "fst (fst (zipDir_start env d w)) = ''/tmp/'' @ randomstring_generate env 13 (tick w) @ ''.zip''
   \<and> trace (snd (zipDir_start env d w))
       = trace w @ [Generate 13, ZipFolder d (fst (fst (zipDir_start env d w)))]
   \<and> fst (zipDir env d w)
       = (case zipFolder env d (fst (fst (zipDir_start env d w))) (Suc (tick w)) of
            Some err \<Rightarrow> Rejected err
          | None \<Rightarrow> Resolved (fst (fst (zipDir_start env d w))))
   \<and> length (fst (fst (zipDir_start env d w)))
       = length (randomstring_generate env 13 (tick w)) + 9
   \<and> ((fst (fst (zipDir_start env d w)) = fst (fst (zipDir_start env d' w')))
        = (randomstring_generate env 13 (tick w) = randomstring_generate env 13 (tick w')))"
  by (simp add: zipDir_def zipDir_start_def zipDir_settle_def Let_def invoke_def tick_def
      split: option.splits)

text \<open>
  C8 as stated fails: nothing in the archiver compares paths, so a generator that returns
  the same token twice makes two archive operations write to the same path.
\<close>

theorem zipDir_same_path_twice:
  "fst (zipDir env_same_token ''/tmp/app/fnA'' world0) = Resolved ''/tmp/aaaaaaaaaaaaa.zip''
   \<and> fst (zipDir env_same_token ''/tmp/app/fnB''
            (snd (zipDir env_same_token ''/tmp/app/fnA'' world0)))
     = Resolved ''/tmp/aaaaaaaaaaaaa.zip''
   \<and> trace (snd (zipDir env_same_token ''/tmp/app/fnB''
                   (snd (zipDir env_same_token ''/tmp/app/fnA'' world0))))
     = [Generate 13, ZipFolder ''/tmp/app/fnA'' ''/tmp/aaaaaaaaaaaaa.zip'',
        Generate 13, ZipFolder ''/tmp/app/fnB'' ''/tmp/aaaaaaaaaaaaa.zip'']"
  by (simp add: zipDir_def zipDir_start_def zipDir_settle_def Let_def invoke_def tick_def
      env_same_token_def env0_def world0_def replicate_13)

section \<open>The orchestrator\<close>





section \<open>The client handle\<close>

lemma cached_validateRequest:
  "cached c w0 w \<Longrightarrow> cached c w0 (snd (validateRequest env req w))"
  by (simp add: cached_def validateRequest_world invoke_def)

lemma cached_getCurrentDeployments:
  "cached c w0 w \<Longrightarrow> cached c w0 (snd (getCurrentDeployments env r w))"
  by (simp add: cached_def getCurrentDeployments_def Let_def)

lemma cached_downloadRepo:
  "cached c w0 w \<Longrightarrow> cached c w0 (snd (downloadRepo env r d w))"
  by (simp add: cached_def downloadRepo_def Let_def invoke_def split: option.splits)

lemma cached_zipDir_start: "cached c w0 w \<Longrightarrow> cached c w0 (snd (zipDir_start env d w))"
  by (simp add: cached_def zipDir_start_def Let_def invoke_def)

lemma cached_zipDir_settle: "cached c w0 w \<Longrightarrow> cached c w0 (snd (zipDir_settle s w))"
  by (simp add: cached_def zipDir_settle_def split: option.splits)

lemma cached_uploadArchive_start:
  "cached c w0 w \<Longrightarrow> cached c w0 (snd (uploadArchive_start env a w))"
  by (simp add: cached_def uploadArchive_start_def invoke_def)

lemma cached_uploadArchive_settle:
  "cached c w0 w \<Longrightarrow> cached c w0 (snd (uploadArchive_settle s w))"
  by (simp add: cached_def uploadArchive_settle_def cleanup_def unlinkSync_def invoke_def
      split: option.splits)

lemma cached_getClient_start:
  "cached c w0 w \<Longrightarrow> getClient_start env w = (Cached c, w)"
  by (simp add: cached_def getClient_start_def)

lemma cached_createOrUpdateFunction:
  "cached c w0 w \<Longrightarrow> cached c w0 (snd (createOrUpdateFunction env gcf l r w))"
  by (simp add: cached_def createOrUpdateFunction_def Let_def invoke_def split: sum.splits)

lemma cached_pollOperation:
  "cached c w0 w \<Longrightarrow> cached c w0 (snd (pollOperation env fuel gcf operation w))"
proof (induction fuel arbitrary: w)
  case 0
  then show ?case by simp
next
  case (Suc fuel)
  have "cached c w0 (invoke (OperationsGet gcf (op_name operation)) w)"
    using Suc.prems by (simp add: cached_def invoke_def)
  then have "cached c w0
      (snd (pollOperation env fuel gcf operation (invoke (OperationsGet gcf (op_name operation)) w)))"
    by (rule Suc.IH)
  with Suc.prems show ?case
    by (simp add: Let_def cached_def invoke_def split: sum.splits option.splits)
qed

lemma cached_deployFunction_settle:
  assumes "cached c w0 w"
  shows "cached c w0 (snd (deployFunction_settle env fuel a n (Cached c') w))"
  unfolding deployFunction_settle_def Let_def
proof (rule then_p_invariant [where P = "cached c w0"])
  show "cached c w0 (snd (getClient_settle (Cached c') w))"
    using assms by (simp add: getClient_settle_def)
next
  fix gcf w1
  assume w1: "cached c w0 w1"
  let ?loc = "''projects/'' @ tpl (PROJECT_ID env) @ ''/locations/'' @ location (config env)"
  let ?r = "\<lparr>sourceArchiveUrl = ''gs://'' @ stageBucket (config env) @ ''/'' @ path_base a,
             name = ?loc @ ''/functions/'' @ n, httpsTrigger = []\<rparr>"
  show "cached c w0
      (snd (then_p (createOrUpdateFunction env gcf ?loc ?r w1)
              (\<lambda>operation w2. pollOperation env fuel gcf operation w2)))"
  proof (rule then_p_invariant [where P = "cached c w0"])
    show "cached c w0 (snd (createOrUpdateFunction env gcf ?loc ?r w1))"
      by (rule cached_createOrUpdateFunction [OF w1])
  qed (rule cached_pollOperation)
qed

lemma cached_zip_all:
  assumes "cached c w0 w"
  shows "cached c w0 (snd (zip_all env d w))"
proof -
  let ?start = "map_world (\<lambda>deployment. zipDir_start env (path_join env d (path deployment)))
      (currentDeployments w) w"
  have "cached c w0 (snd ?start)"
    by (rule map_world_invariant [where P = "cached c w0"])
      (simp_all add: cached_zipDir_start assms)
  then have "cached c w0 (snd (map_world zipDir_settle (fst ?start) (snd ?start)))"
    by (rule map_world_invariant [where P = "cached c w0", rotated])
      (simp add: cached_zipDir_settle)
  then show ?thesis
    by (simp add: zip_all_def zip_members_def case_prod_beta)
qed

lemma cached_upload_all:
  assumes "cached c w0 w"
  shows "cached c w0 (snd (upload_all env as w))"
proof -
  let ?start = "map_world (uploadArchive_start env) as w"
  have "cached c w0 (snd ?start)"
    by (rule map_world_invariant [where P = "cached c w0"])
      (simp_all add: cached_uploadArchive_start assms)
  then have "cached c w0 (snd (map_world uploadArchive_settle (fst ?start) (snd ?start)))"
    by (rule map_world_invariant [where P = "cached c w0", rotated])
      (simp add: cached_uploadArchive_settle)
  then show ?thesis
    by (simp add: upload_all_def upload_members_def case_prod_beta)
qed

lemma cached_start_deploys:
  "cached c w0 w \<Longrightarrow>
   snd (start_deploys env i as w) = w
   \<and> (\<forall>x \<in> set (fst (fst (start_deploys env i as w))). snd (snd x) = Cached c)"
proof (induction as arbitrary: i)
  case Nil
  then show ?case by simp
next
  case (Cons a as)
  show ?case
  proof (cases "nth_opt (currentDeployments w) i")
    case None
    then show ?thesis by simp
  next
    case (Some d)
    with Cons.IH [OF Cons.prems, of "Suc i"] cached_getClient_start [OF Cons.prems, of env]
    show ?thesis
      by (simp add: deployFunction_start_def Let_def case_prod_beta)
  qed
qed

lemma cached_deploy_all:
  assumes "cached c w0 w"
  shows "cached c w0 (snd (deploy_all env fuel as w))"
proof -
  let ?start = "start_deploys env 0 as w"
  from cached_start_deploys [OF assms, of env 0 as]
  have w: "snd ?start = w" and all: "\<forall>x \<in> set (fst (fst ?start)). snd (snd x) = Cached c"
    by simp_all
  have "cached c w0
      (snd (map_world (\<lambda>(archive, name', p). deployFunction_settle env fuel archive name' p)
              (fst (fst ?start)) w))"
  proof (rule map_world_invariant [where P = "cached c w0"])
    fix x w'
    assume "x \<in> set (fst (fst ?start))" and "cached c w0 w'"
    with all show "cached c w0
        (snd ((case x of (archive, name', p) \<Rightarrow> deployFunction_settle env fuel archive name' p) w'))"
      by (cases x) (auto simp: cached_deployFunction_settle)
  qed (rule assms)
  then show ?thesis
    by (simp add: deploy_all_def deploy_members_def case_prod_beta w split: option.splits)
qed

lemma cached_stages:
  assumes "cached c w0 w"
  shows "cached c w0 (snd (stages env fuel req r repo w))"
  unfolding stages_def Let_def
  apply (rule then_p_invariant [where P = "cached c w0"])
   apply (rule then_p_invariant [where P = "cached c w0"])
    apply (rule then_p_invariant [where P = "cached c w0"])
     apply (rule then_p_invariant [where P = "cached c w0"])
      apply (rule then_p_invariant [where P = "cached c w0"])
       apply (rule cached_validateRequest [OF assms])
      apply (erule cached_getCurrentDeployments)
     apply (simp add: cached_downloadRepo split: sum.splits)
    apply (erule cached_zip_all)
   apply (erule cached_upload_all)
  apply (erule cached_deploy_all)
  done

lemma cached_handler:
  assumes "cached c w0 w"
  shows "cached c w0 (snd (githubAutoDeployer env fuel req w))"
proof (cases "read_repository req")
  case (Inl e)
  with assms show ?thesis
    by (simp add: githubAutoDeployer_def)
next
  case (Inr ur)
  obtain r repo where ur: "ur = (r, repo)"
    by (cases ur)
  obtain p6 w6 where st: "stages env fuel req r repo w = (p6, w6)"
    by (cases "stages env fuel req r repo w")
  with cached_stages [OF assms, of env fuel req r repo] have "cached c w0 w6"
    by simp
  then show ?thesis
    by (cases p6)
      (simp_all add: githubAutoDeployer_def Inr ur st Let_def then_p_simps catch_send_def
        send_results_def cached_def)
qed

text \<open>
  C9, as the code has it: once a handle is in \<open>client\<close>, a call of \<open>getClient\<close> resolves
  with that handle and leaves the state as it is, so the credentials are not asked for;
  and a request served from such a state keeps the handle, builds no other one and never
  asks for the credentials.
\<close>

theorem getClient_reuses_handle:
  assumes "client w = Some c"
  shows "getClient env w = (Resolved c, w)
    \<and> client (snd (githubAutoDeployer env fuel req w)) = Some c
    \<and> allocated (snd (githubAutoDeployer env fuel req w)) = allocated w
    \<and> filter (\<lambda>x. x = GetApplicationDefault) (trace (snd (githubAutoDeployer env fuel req w)))
        = filter (\<lambda>x. x = GetApplicationDefault) (trace w)"
proof -
  have "cached c w w"
    using assms by (simp add: cached_def)
  from cached_handler [OF this, of env fuel req] assms show ?thesis
    by (simp add: cached_def getClient_def getClient_start_def getClient_settle_def)
qed

theorem getClient_reuses_handle_witness:
  "client world_cached = Some gcf_scoped
   \<and> getClient env0 world_cached = (Resolved gcf_scoped, world_cached)
   \<and> client (snd (githubAutoDeployer env0 1 req_signed world_cached)) = Some gcf_scoped
   \<and> allocated (snd (githubAutoDeployer env0 1 req_signed world_cached)) = 1
   \<and> filter (\<lambda>x. x = GetApplicationDefault)
        (trace (snd (githubAutoDeployer env0 1 req_signed world_cached))) = []"
proof -
  have c: "client world_cached = Some gcf_scoped"
    by (simp add: world_cached_def)
  from getClient_reuses_handle [OF c, of env0 1 req_signed] c show ?thesis
    by (simp add: world_cached_def world0_def)
qed

text \<open>
  C9 as stated fails: two calls of \<open>getClient\<close> made before the first callback runs both
  ask for the credentials, and the second callback replaces the handle the first one
  stored. The deploy stage does this for the first request that matches two deployments:
  afterwards two handles have been built and \<open>client\<close> holds the second.
\<close>

theorem getClient_replaces_handle:
  "client world0 = None
   \<and> getClient_start env0 world0
       = (Authenticating (Inr adc), world0\<lparr>trace := [GetApplicationDefault]\<rparr>)
   \<and> getClient_start env0 (world0\<lparr>trace := [GetApplicationDefault]\<rparr>)
       = (Authenticating (Inr adc),
          world0\<lparr>trace := [GetApplicationDefault, GetApplicationDefault]\<rparr>)
   \<and> getClient_settle (Authenticating (Inr adc))
         (world0\<lparr>trace := [GetApplicationDefault, GetApplicationDefault]\<rparr>)
       = (Resolved gcf_scoped,
          world0\<lparr>client := Some gcf_scoped,
                   trace := [GetApplicationDefault, GetApplicationDefault], allocated := 1\<rparr>)
   \<and> getClient_settle (Authenticating (Inr adc))
         (world0\<lparr>client := Some gcf_scoped,
                  trace := [GetApplicationDefault, GetApplicationDefault], allocated := 1\<rparr>)
       = (Resolved gcf_second,
          world0\<lparr>client := Some gcf_second,
                   trace := [GetApplicationDefault, GetApplicationDefault], allocated := 2\<rparr>)
   \<and> gcf_second \<noteq> gcf_scoped
   \<and> client (snd (githubAutoDeployer env0 1 req_signed world0)) = Some gcf_second
   \<and> allocated (snd (githubAutoDeployer env0 1 req_signed world0)) = 2
   \<and> filter (\<lambda>x. x = GetApplicationDefault)
        (trace (snd (githubAutoDeployer env0 1 req_signed world0)))
       = [GetApplicationDefault, GetApplicationDefault]"
  unfolding run_signed snd_conv
  by (simp add: world_deployed_def getClient_start_def getClient_settle_def cloudfunctions_def
      createScoped_def invoke_def tick_def Let_def gcf_second_def gcf_scoped_def adc_def
      world0_def env0_def)

end
